theory Spec2Isabelle
  imports Main "HOL-Library.Word" "HOL-Library.Sublist"
begin

unbundle bit_operations_syntax

section \<open>Data model of \<open>bluetooth_mesh_com.py\<close>\<close>

text \<open>
  A Python \<open>bytes\<close> object is a list of 8-bit words, a Python \<open>int\<close> is an \<open>int\<close>, and a
  Python \<open>str\<close> is the list of its Unicode code points (so that \<open>length\<close> is Python's
  \<open>len\<close> on a \<open>str\<close>).
\<close>

type_synonym byte = "8 word"
type_synonym bytes = "byte list"
type_synonym str = "nat list"

text \<open>The exceptions that the modelled methods can raise, by their Python class.\<close>

datatype error = AttributeError | ValueError | StructError | UnicodeEncodeError

text \<open>
  Every call that leaves the class is recorded, in order: \<open>print\<close>, the application's
  \<open>message_callback\<close>, the scanner, the advertiser (\<open>StartAdvertising None\<close> is the
  presence beacon, \<open>StartAdvertising (Some packet)\<close> carries \<open>packet\<close> as service data)
  and the start of the presence thread.
\<close>

datatype event =
    Print string
  | MessageCallback str
  | StartScan
  | StartThread
  | StopScan
  | StartAdvertising "bytes option"
  | StopAdvertising

text \<open>
  The attributes of a \<open>BluetoothMeshComm\<close> object. \<open>message_callback\<close> tells whether a
  callback is registered (the attribute is truthy); \<open>scan_callback\<close> and
  \<open>advertise_callback\<close> tell whether the attribute exists at all, since \<open>__init__\<close>
  does not create them and reading a missing attribute raises \<open>AttributeError\<close>.
\<close>

record node =
  node_id :: int
  network_key :: bytes
  running :: bool
  message_callback :: bool
  sequence_number :: int
  scan_callback :: bool
  advertise_callback :: bool
  calls :: "event list"

text \<open>
  The functions of the \<open>cryptography\<close> package and of the Python runtime that the class
  calls but does not define: the AES block transform under a key, in both directions, on
  one 16-byte block, and \<open>bytes.decode('utf-8', errors='ignore')\<close>, which is total.
\<close>

record backend =
  aes_encrypt_block :: "bytes \<Rightarrow> bytes \<Rightarrow> bytes"
  aes_decrypt_block :: "bytes \<Rightarrow> bytes \<Rightarrow> bytes"
  utf8_decode_ignore :: "bytes \<Rightarrow> str"

definition MAX_PAYLOAD_SIZE :: nat where
  "MAX_PAYLOAD_SIZE = 23"

definition TTL_DEFAULT :: int where
  "TTL_DEFAULT = 7"

section \<open>Library functions used by the class\<close>

subsection \<open>\<open>struct\<close>\<close>

text \<open>Format \<open>H\<close>: an unsigned 16-bit value, big-endian; \<open>struct.error\<close> out of range.\<close>

definition pack_H :: "int \<Rightarrow> bytes option" where
  "pack_H v = (if 0 \<le> v \<and> v \<le> 65535
               then Some [word_of_int (v div 256), word_of_int (v mod 256)] else None)"

text \<open>Format \<open>B\<close>: an unsigned 8-bit value.\<close>

definition pack_B :: "int \<Rightarrow> bytes option" where
  "pack_B v = (if 0 \<le> v \<and> v \<le> 255 then Some [word_of_int v] else None)"

text \<open>Format \<open>>HHBH\<close>: seven bytes, no alignment.\<close>

definition struct_pack_HHBH :: "int \<Rightarrow> int \<Rightarrow> int \<Rightarrow> int \<Rightarrow> bytes option" where
  "struct_pack_HHBH a b c d =
     (case pack_H a of None \<Rightarrow> None | Some x \<Rightarrow>
     (case pack_H b of None \<Rightarrow> None | Some y \<Rightarrow>
     (case pack_B c of None \<Rightarrow> None | Some z \<Rightarrow>
     (case pack_H d of None \<Rightarrow> None | Some w \<Rightarrow> Some (x @ y @ z @ w)))))"

text \<open>\<open>struct.pack_into\<close> writes the packed bytes over the buffer from \<open>offset\<close> on.\<close>

definition pack_into :: "bytes \<Rightarrow> nat \<Rightarrow> bytes \<Rightarrow> bytes option" where
  "pack_into buf offset packed =
     (if offset + length packed \<le> length buf
      then Some (take offset buf @ packed @ drop (offset + length packed) buf) else None)"

text \<open>\<open>struct.unpack('>H', b)[0]\<close>: exactly two bytes.\<close>

fun unpack_H :: "bytes \<Rightarrow> int option" where
  "unpack_H [a, b] = Some (uint a * 256 + uint b)"
| "unpack_H _ = None"

subsection \<open>Slices and \<open>rstrip\<close>\<close>

text \<open>\<open>xs[i:j]\<close> for indices \<open>0 \<le> i \<le> j\<close>; Python clamps at the end, as \<open>take\<close> and \<open>drop\<close> do.\<close>

definition py_slice :: "'a list \<Rightarrow> nat \<Rightarrow> nat \<Rightarrow> 'a list" where
  "py_slice xs i j = take (j - i) (drop i xs)"

text \<open>\<open>xs[i:] = v\<close> on a bytearray with \<open>i \<le> len(xs)\<close>: the tail from \<open>i\<close> is replaced by \<open>v\<close>.\<close>

definition assign_from :: "'a list \<Rightarrow> nat \<Rightarrow> 'a list \<Rightarrow> 'a list" where
  "assign_from xs i v = take i xs @ v"

text \<open>\<open>b.rstrip(b'\x00')\<close>.\<close>

definition rstrip_zero :: "bytes \<Rightarrow> bytes" where
  "rstrip_zero bs = rev (dropWhile (\<lambda>b. b = 0) (rev bs))"

subsection \<open>The ECB cipher context\<close>

text \<open>\<open>algorithms.AES(key)\<close> raises \<open>ValueError\<close> unless the key has 128, 192 or 256 bits.\<close>

definition aes_key_ok :: "bytes \<Rightarrow> bool" where
  "aes_key_ok key = (length key = 16 \<or> length key = 24 \<or> length key = 32)"

fun blocks16 :: "bytes \<Rightarrow> bytes list" where
  "blocks16 bs = (if length bs < 16 then [] else take 16 bs # blocks16 (drop 16 bs))"

declare blocks16.simps [simp del]

text \<open>
  \<open>update(data)\<close> transforms every complete block and keeps the rest of the data
  buffered; \<open>finalize()\<close> raises \<open>ValueError\<close> when the buffer is not empty, and returns
  no bytes otherwise.
\<close>

definition ecb_update :: "(bytes \<Rightarrow> bytes) \<Rightarrow> bytes \<Rightarrow> bytes" where
  "ecb_update f data = concat (map f (blocks16 data))"

definition ecb_buffered :: "bytes \<Rightarrow> bytes" where
  "ecb_buffered data = drop (16 * (length data div 16)) data"

definition ecb_finalize :: "bytes \<Rightarrow> error + bytes" where
  "ecb_finalize buffered = (if buffered = [] then Inr [] else Inl ValueError)"

text \<open>\<open>ctx.update(data) + ctx.finalize()\<close>.\<close>

definition ecb_run :: "(bytes \<Rightarrow> bytes) \<Rightarrow> bytes \<Rightarrow> error + bytes" where
  "ecb_run f data =
     (let out = ecb_update f data in
      case ecb_finalize (ecb_buffered data) of
        Inl e \<Rightarrow> Inl e
      | Inr t \<Rightarrow> Inr (out @ t))"

subsection \<open>\<open>str.encode('utf-8')\<close> and \<open>str(int)\<close>\<close>

text \<open>One code point; a surrogate raises \<open>UnicodeEncodeError\<close>.\<close>

definition utf8_encode_cp :: "nat \<Rightarrow> bytes option" where
  "utf8_encode_cp c =
     (if c < 0x80 then Some [of_nat c]
      else if c < 0x800 then Some [of_nat (0xC0 + c div 64), of_nat (0x80 + c mod 64)]
      else if c < 0x10000 then
        (if 0xD800 \<le> c \<and> c \<le> 0xDFFF then None
         else Some [of_nat (0xE0 + c div 4096), of_nat (0x80 + c div 64 mod 64),
                    of_nat (0x80 + c mod 64)])
      else Some [of_nat (0xF0 + c div 262144), of_nat (0x80 + c div 4096 mod 64),
                 of_nat (0x80 + c div 64 mod 64), of_nat (0x80 + c mod 64)])"

fun utf8_encode :: "str \<Rightarrow> bytes option" where
  "utf8_encode [] = Some []"
| "utf8_encode (c # cs) =
     (case utf8_encode_cp c of None \<Rightarrow> None | Some b \<Rightarrow>
     (case utf8_encode cs of None \<Rightarrow> None | Some r \<Rightarrow> Some (b @ r)))"

fun digits :: "nat \<Rightarrow> str" where
  "digits n = (if n < 10 then [48 + n] else digits (n div 10) @ [48 + n mod 10])"

declare digits.simps [simp del]

definition str_of_int :: "int \<Rightarrow> str" where
  "str_of_int i = (if i < 0 then 45 # digits (nat (- i)) else digits (nat i))"

section \<open>The class \<open>BluetoothMeshComm\<close>\<close>

text \<open>\<open>__init__\<close>: the adapter handles are external; the other attributes are these.\<close>

definition init :: "int \<Rightarrow> bytes \<Rightarrow> node" where
  "init nid key =
     \<lparr>node_id = nid, network_key = key, running = False, message_callback = False,
      sequence_number = 0, scan_callback = False, advertise_callback = False, calls = []\<rparr>"

definition emit :: "event list \<Rightarrow> node \<Rightarrow> node" where
  "emit es s = s\<lparr>calls := calls s @ es\<rparr>"

text \<open>
  \<open>start\<close>; \<open>enabled\<close> is the answer of \<open>adapter.isEnabled()\<close>. \<open>_start_scanning\<close> creates
  \<open>scan_callback\<close> and starts the scan; the presence thread is started and runs on its own.
\<close>

definition start :: "bool \<Rightarrow> node \<Rightarrow> node" where
  "start enabled s =
     (if \<not> enabled then emit [Print ''Bluetooth not enabled''] s
      else emit [StartScan, StartThread] (s\<lparr>running := True, scan_callback := True\<rparr>))"

text \<open>
  The first statements of the thread body \<open>_advertise_presence\<close> (lines 86 to 101), which
  create \<open>advertise_callback\<close>, and one turn of its \<open>while self.running\<close> loop.
\<close>

definition advertise_presence_begin :: "node \<Rightarrow> node" where
  "advertise_presence_begin s = s\<lparr>advertise_callback := True\<rparr>"

definition advertise_presence_cycle :: "node \<Rightarrow> node" where
  "advertise_presence_cycle s =
     (if running s then emit [StartAdvertising None, StopAdvertising] s else s)"

text \<open>\<open>stop\<close>: the flag is cleared first; each adapter call reads an attribute.\<close>

definition stop :: "node \<Rightarrow> (error + unit) \<times> node" where
  "stop s =
     (let s1 = s\<lparr>running := False\<rparr> in
      if \<not> scan_callback s1 then (Inl AttributeError, s1)
      else let s2 = emit [StopScan] s1 in
        if \<not> advertise_callback s2 then (Inl AttributeError, s2)
        else (Inr (), emit [StopAdvertising] s2))"

text \<open>\<open>_advertise_packet\<close>: one broadcast of \<open>packet\<close> as service data.\<close>

definition advertise_packet :: "node \<Rightarrow> bytes \<Rightarrow> (error + unit) \<times> node" where
  "advertise_packet s packet =
     (if \<not> advertise_callback s then (Inl AttributeError, s)
      else (Inr (), emit [StartAdvertising (Some packet), StopAdvertising] s))"

text \<open>
  \<open>_create_mesh_packet\<close>. \<open>packet[0] = opcode\<close> raises \<open>ValueError\<close> outside
  \<open>range(256)\<close>; \<open>pack_into\<close> writes bytes 1 to 7; \<open>packet[7:] = payload\<close> replaces
  everything from byte 7 on; the counter is advanced modulo \<open>0xFFFF\<close>.
\<close>

definition create_mesh_packet ::
  "node \<Rightarrow> int \<Rightarrow> int \<Rightarrow> bytes \<Rightarrow> int \<Rightarrow> (error + bytes) \<times> node" where
  "create_mesh_packet s destination_id opcode payload ttl =
     (let packet = replicate (8 + length payload) (0 :: byte) in
      if opcode < 0 \<or> 255 < opcode then (Inl ValueError, s)
      else let packet = packet[0 := word_of_int opcode] in
       (case struct_pack_HHBH (node_id s) destination_id ttl (sequence_number s) of
          None \<Rightarrow> (Inl StructError, s)
        | Some packed \<Rightarrow>
           (case pack_into packet 1 packed of
              None \<Rightarrow> (Inl StructError, s)
            | Some packet \<Rightarrow>
               (let packet = assign_from packet 7 payload;
                    s = s\<lparr>sequence_number := (sequence_number s + 1) mod 0xFFFF\<rparr>
                in (Inr packet, s)))))"

text \<open>\<open>_encrypt_payload\<close> and \<open>_decrypt_payload\<close>.\<close>

definition encrypt_payload :: "backend \<Rightarrow> node \<Rightarrow> bytes \<Rightarrow> error + bytes" where
  "encrypt_payload B s payload =
     (if \<not> aes_key_ok (network_key s) then Inl ValueError
      else let padded_payload = payload @ replicate (16 - length payload mod 16) 0
           in ecb_run (aes_encrypt_block B (network_key s)) padded_payload)"

definition decrypt_payload :: "backend \<Rightarrow> node \<Rightarrow> bytes \<Rightarrow> error + bytes" where
  "decrypt_payload B s encrypted_payload =
     (if \<not> aes_key_ok (network_key s) then Inl ValueError
      else (case ecb_run (aes_decrypt_block B (network_key s)) encrypted_payload of
              Inl e \<Rightarrow> Inl e
            | Inr decrypted \<Rightarrow> Inr (rstrip_zero decrypted)))"

text \<open>\<open>send_message\<close>; \<open>len(text)\<close> counts code points.\<close>

definition send_message :: "backend \<Rightarrow> node \<Rightarrow> int \<Rightarrow> str \<Rightarrow> (error + unit) \<times> node" where
  "send_message B s destination_id text =
     (if length text > MAX_PAYLOAD_SIZE then (Inr (), emit [Print ''Message too long''] s)
      else (case utf8_encode text of
        None \<Rightarrow> (Inl UnicodeEncodeError, s)
      | Some payload \<Rightarrow>
         (case encrypt_payload B s payload of
            Inl e \<Rightarrow> (Inl e, s)
          | Inr encrypted_payload \<Rightarrow>
             (case create_mesh_packet s destination_id 0x01 encrypted_payload TTL_DEFAULT of
                (Inl e, s1) \<Rightarrow> (Inl e, s1)
              | (Inr packet, s1) \<Rightarrow> advertise_packet s1 packet))))"

text \<open>
  The header fields that \<open>_process_mesh_message\<close> reads from a record of at least eight
  bytes (lines 137 to 142), in the order opcode, source_id, destination_id, ttl, seq_num,
  encrypted_payload.
\<close>

record header =
  h_opcode :: int
  h_source_id :: int
  h_destination_id :: int
  h_ttl :: int
  h_seq_num :: int
  h_encrypted_payload :: bytes

definition parse_header :: "bytes \<Rightarrow> header option" where
  "parse_header scan_record =
     (if length scan_record < 8 then None
      else (case unpack_H (py_slice scan_record 1 3) of None \<Rightarrow> None | Some source_id \<Rightarrow>
           (case unpack_H (py_slice scan_record 3 5) of None \<Rightarrow> None | Some destination_id \<Rightarrow>
           (case unpack_H (py_slice scan_record 6 8) of None \<Rightarrow> None | Some seq_num \<Rightarrow>
             Some \<lparr>h_opcode = uint (scan_record ! 0), h_source_id = source_id,
                   h_destination_id = destination_id, h_ttl = uint (scan_record ! 5),
                   h_seq_num = seq_num, h_encrypted_payload = drop 8 scan_record\<rparr>))))"

text \<open>The f-string \<open>f"Node {source_id}: {message}"\<close>.\<close>

definition format_message :: "int \<Rightarrow> str \<Rightarrow> str" where
  "format_message source_id message =
     map of_char ''Node '' @ str_of_int source_id @ map of_char '': '' @ message"

text \<open>\<open>_process_mesh_message\<close>.\<close>

definition process_mesh_message :: "backend \<Rightarrow> node \<Rightarrow> bytes \<Rightarrow> (error + unit) \<times> node" where
  "process_mesh_message B s scan_record =
     (case parse_header scan_record of
        None \<Rightarrow> (Inr (), s)
      | Some h \<Rightarrow>
         if h_ttl h \<le> 0 then (Inr (), s)
         else (case decrypt_payload B s (h_encrypted_payload h) of
           Inl e \<Rightarrow> (Inl e, s)
         | Inr payload \<Rightarrow>
            (let s1 = (if h_opcode h = 0x01 then
                         (let message = utf8_decode_ignore B payload in
                          if message_callback s
                          then emit [MessageCallback (format_message (h_source_id h) message)] s
                          else s)
                       else s)
             in if h_ttl h > 1 \<and> running s1 then
                  (case create_mesh_packet s1 (h_destination_id h) (h_opcode h) payload
                          (h_ttl h - 1) of
                     (Inl e, s2) \<Rightarrow> (Inl e, s2)
                   | (Inr packet, s2) \<Rightarrow> advertise_packet s2 packet)
                else (Inr (), s1))))"

section \<open>Assumptions on the cipher, and concrete instances\<close>

text \<open>
  What the class relies on from AES in ECB mode: a block of 16 bytes goes to a block of
  16 bytes, and decryption under a key undoes encryption under the same key.
\<close>

definition block_preserving :: "(bytes \<Rightarrow> bytes) \<Rightarrow> bool" where
  "block_preserving f \<longleftrightarrow> (\<forall>b. length b = 16 \<longrightarrow> length (f b) = 16)"

definition block_inverse :: "(bytes \<Rightarrow> bytes) \<Rightarrow> (bytes \<Rightarrow> bytes) \<Rightarrow> bool" where
  "block_inverse g f \<longleftrightarrow> (\<forall>b. length b = 16 \<longrightarrow> g (f b) = b)"

text \<open>
  A small backend with these two properties, to instantiate the general statements at
  concrete inputs: the block transform is XOR with the first 16 key bytes, and the
  decoder keeps the ASCII bytes (which is what Python's decoder does on ASCII input).
\<close>

definition xor_block :: "bytes \<Rightarrow> bytes \<Rightarrow> bytes" where
  "xor_block key b = map2 (XOR) (take 16 key) b"

definition ascii_decode_ignore :: "bytes \<Rightarrow> str" where
  "ascii_decode_ignore bs = map unat (filter (\<lambda>b. b < 0x80) bs)"

definition xor_backend :: backend where
  "xor_backend = \<lparr>aes_encrypt_block = xor_block, aes_decrypt_block = xor_block,
                   utf8_decode_ignore = ascii_decode_ignore\<rparr>"

text \<open>
  The node that \<open>MeshCommApp.__init__\<close> builds (node 1, key \<open>b'0123456789abcdef'\<close>,
  callback registered), and a second node of the same mesh, started, whose presence
  thread has begun.
\<close>

definition app_key :: bytes where
  "app_key = [0x30, 0x31, 0x32, 0x33, 0x34, 0x35, 0x36, 0x37, 0x38, 0x39,
              0x61, 0x62, 0x63, 0x64, 0x65, 0x66]"

definition app_mesh :: node where
  "app_mesh = (init 0x0001 app_key)\<lparr>message_callback := True\<rparr>"

definition relay_node :: node where
  "relay_node =
     advertise_presence_begin (start True ((init 0x0002 app_key)\<lparr>message_callback := True\<rparr>))"

text \<open>The application's node once started, with its presence thread begun.\<close>

definition app_running :: node where
  "app_running = advertise_presence_begin (start True app_mesh)"

text \<open>\<open>n\<close> packets built one after the other by the same node.\<close>

fun build_packets :: "nat \<Rightarrow> node \<Rightarrow> int \<Rightarrow> int \<Rightarrow> bytes \<Rightarrow> int \<Rightarrow> node" where
  "build_packets 0 s destination_id opcode payload ttl = s"
| "build_packets (Suc n) s destination_id opcode payload ttl =
     build_packets n (snd (create_mesh_packet s destination_id opcode payload ttl))
       destination_id opcode payload ttl"

text \<open>
  A frame from node 1 to the broadcast address with ttl 5 and sequence number 0, whose
  one ciphertext block is \<open>b'hi'\<close> padded with zero bytes under the XOR backend and
  \<open>app_key\<close>; and the header fields read from it.
\<close>

definition hi_block :: bytes where
  "hi_block = [0x58, 0x58, 0x32, 0x33, 0x34, 0x35, 0x36, 0x37, 0x38, 0x39,
               0x61, 0x62, 0x63, 0x64, 0x65, 0x66]"

definition hi_frame :: bytes where
  "hi_frame = [0x01, 0x00, 0x01, 0xFF, 0xFF, 0x05, 0x00, 0x00] @ hi_block"

definition hi_header :: header where
  "hi_header = \<lparr>h_opcode = 0x01, h_source_id = 1, h_destination_id = 0xFFFF, h_ttl = 5,
                 h_seq_num = 0, h_encrypted_payload = hi_block\<rparr>"

text \<open>
  A text of 23 code points U+00E9, and its UTF-8 encoding, two bytes for each.
\<close>

definition e_acute_text :: str where
  "e_acute_text = replicate 23 0xE9"

definition e_acute_utf8 :: bytes where
  "e_acute_utf8 = concat (replicate 23 [0xC3, 0xA9])"

section \<open>Facts about the library functions\<close>

subsection \<open>ECB over whole blocks\<close>

lemma blocks16_short: "length bs < 16 \<Longrightarrow> blocks16 bs = []"
  by (simp add: blocks16.simps)

lemma blocks16_step: "16 \<le> length bs \<Longrightarrow> blocks16 bs = take 16 bs # blocks16 (drop 16 bs)"
  by (subst blocks16.simps) simp

lemma length_ecb_update:
  "block_preserving f \<Longrightarrow> length (ecb_update f data) = 16 * (length data div 16)"
proof (induction data rule: blocks16.induct)
  case (1 bs)
  show ?case
  proof (cases "length bs < 16")
    case True
    then show ?thesis by (simp add: ecb_update_def blocks16_short)
  next
    case False
    then have step: "blocks16 bs = take 16 bs # blocks16 (drop 16 bs)"
      by (simp add: blocks16_step)
    have len: "length (f (take 16 bs)) = 16"
      using "1.prems" False by (simp add: block_preserving_def)
    have ih: "length (ecb_update f (drop 16 bs)) = 16 * ((length bs - 16) div 16)"
      using "1.IH" [OF False "1.prems"] by simp
    have "length bs div 16 = Suc ((length bs - 16) div 16)"
      using False by (simp add: le_div_geq)
    with ih len step show ?thesis
      by (simp add: ecb_update_def)
  qed
qed

lemma ecb_buffered_empty: "length data mod 16 = 0 \<Longrightarrow> ecb_buffered data = []"
  by (auto simp: ecb_buffered_def)

lemma ecb_buffered_nonempty: "length data mod 16 \<noteq> 0 \<Longrightarrow> ecb_buffered data \<noteq> []"
proof -
  assume a: "length data mod 16 \<noteq> 0"
  have "16 * (length data div 16) + length data mod 16 = length data" by simp
  with a have "16 * (length data div 16) < length data" by linarith
  then show ?thesis by (simp add: ecb_buffered_def)
qed

lemma ecb_run_aligned:
  "length data mod 16 = 0 \<Longrightarrow> ecb_run f data = Inr (ecb_update f data)"
  by (simp add: ecb_run_def ecb_finalize_def ecb_buffered_empty)

lemma ecb_run_unaligned:
  "length data mod 16 \<noteq> 0 \<Longrightarrow> ecb_run f data = Inl ValueError"
  by (simp add: ecb_run_def ecb_finalize_def ecb_buffered_nonempty)

lemma padded_aligned: "(length p + (16 - length p mod 16)) mod 16 = 0"
  by presburger

lemma blocks16_single: "length b = 16 \<Longrightarrow> blocks16 b = [b]"
  by (simp add: blocks16_step blocks16_short)

lemma ecb_update_single: "length b = 16 \<Longrightarrow> ecb_update f b = f b"
  by (simp add: ecb_update_def blocks16_single)

lemma rstrip_zero_padding:
  assumes "p = [] \<or> last p \<noteq> 0"
  shows "rstrip_zero (p @ replicate n 0) = p"
proof -
  have "dropWhile (\<lambda>b. b = 0) (replicate n (0 :: byte) @ rev p) = dropWhile (\<lambda>b. b = 0) (rev p)"
    by (rule dropWhile_append2) simp
  also have "\<dots> = rev p"
  proof (cases p rule: rev_cases)
    case Nil
    then show ?thesis by simp
  next
    case (snoc ys y)
    with assms show ?thesis by simp
  qed
  finally show ?thesis by (simp add: rstrip_zero_def)
qed

lemma rstrip_zero_no_trailing_zero:
  "rstrip_zero bs = [] \<or> last (rstrip_zero bs) \<noteq> 0"
proof (cases "dropWhile (\<lambda>b. b = 0) (rev bs)")
  case Nil
  then show ?thesis by (simp add: rstrip_zero_def)
next
  case (Cons y ys)
  then have "y \<noteq> 0"
    by (metis (mono_tags, lifting) hd_dropWhile list.sel(1) list.distinct(1))
  with Cons show ?thesis by (simp add: rstrip_zero_def)
qed

subsection \<open>Reading the header\<close>

lemma take2_drop: "Suc i < length r \<Longrightarrow> take 2 (drop i r) = [r ! i, r ! Suc i]"
proof -
  assume a: "Suc i < length r"
  then have "drop i r = r ! i # drop (Suc i) r"
    by (simp add: Cons_nth_drop_Suc)
  moreover from a have "drop (Suc i) r = r ! Suc i # drop (Suc (Suc i)) r"
    by (simp add: Cons_nth_drop_Suc)
  ultimately show ?thesis by (simp add: numeral_2_eq_2)
qed

lemma py_slice_1_3: "8 \<le> length r \<Longrightarrow> py_slice r 1 3 = [r ! 1, r ! 2]"
  using take2_drop [of 1 r] by (simp add: py_slice_def numeral_2_eq_2)

lemma py_slice_3_5: "8 \<le> length r \<Longrightarrow> py_slice r 3 5 = [r ! 3, r ! 4]"
  using take2_drop [of 3 r] by (simp add: py_slice_def eval_nat_numeral)

lemma py_slice_6_8: "8 \<le> length r \<Longrightarrow> py_slice r 6 8 = [r ! 6, r ! 7]"
  using take2_drop [of 6 r] by (simp add: py_slice_def eval_nat_numeral)

lemma parse_header_short: "length r < 8 \<Longrightarrow> parse_header r = None"
  by (simp add: parse_header_def)

lemma parse_header_long:
  "8 \<le> length r \<Longrightarrow> parse_header r =
     Some \<lparr>h_opcode = uint (r ! 0), h_source_id = uint (r ! 1) * 256 + uint (r ! 2),
           h_destination_id = uint (r ! 3) * 256 + uint (r ! 4), h_ttl = uint (r ! 5),
           h_seq_num = uint (r ! 6) * 256 + uint (r ! 7), h_encrypted_payload = drop 8 r\<rparr>"
  using py_slice_1_3 [of r] py_slice_3_5 [of r] py_slice_6_8 [of r]
  by (simp add: parse_header_def)

subsection \<open>The frame that \<open>_create_mesh_packet\<close> builds\<close>

text \<open>
  With every field in the range of its format, the frame is the first seven header bytes
  followed by the payload: the low byte of the sequence number, written at index 7 by
  \<open>pack_into\<close>, is replaced by the slice assignment, and the counter advances modulo
  65535.
\<close>

lemma create_mesh_packet_layout:
  assumes "0 \<le> opcode" "opcode \<le> 255"
    and "0 \<le> node_id s" "node_id s \<le> 65535"
    and "0 \<le> destination_id" "destination_id \<le> 65535"
    and "0 \<le> ttl" "ttl \<le> 255"
    and "0 \<le> sequence_number s" "sequence_number s \<le> 65535"
  shows "create_mesh_packet s destination_id opcode payload ttl =
           (Inr ([word_of_int opcode,
                  word_of_int (node_id s div 256), word_of_int (node_id s mod 256),
                  word_of_int (destination_id div 256), word_of_int (destination_id mod 256),
                  word_of_int ttl,
                  word_of_int (sequence_number s div 256)] @ payload),
            s\<lparr>sequence_number := (sequence_number s + 1) mod 65535\<rparr>)"
proof -
  have packed: "struct_pack_HHBH (node_id s) destination_id ttl (sequence_number s) =
      Some [word_of_int (node_id s div 256), word_of_int (node_id s mod 256),
            word_of_int (destination_id div 256), word_of_int (destination_id mod 256),
            word_of_int ttl,
            word_of_int (sequence_number s div 256), word_of_int (sequence_number s mod 256)]"
    using assms by (simp add: struct_pack_HHBH_def pack_H_def pack_B_def)
  have buf: "(replicate (8 + length payload) (0 :: byte))[0 := x] = x # replicate (7 + length payload) 0" for x
    by (simp add: eval_nat_numeral)
  show ?thesis
    using assms(1,2)
    by (simp add: create_mesh_packet_def packed buf pack_into_def assign_from_def Let_def)
qed

subsection \<open>The XOR backend is a block cipher in the sense above\<close>

lemma map2_xor_twice:
  "length k = length b \<Longrightarrow> map2 (XOR) k (map2 (XOR) k b) = (b :: bytes)"
proof (induction k b rule: list_induct2)
  case Nil
  then show ?case by simp
next
  case (Cons x xs y ys)
  have "x XOR (x XOR y) = y"
    by (simp flip: xor.assoc)
  with Cons show ?case by simp
qed

lemma xor_block_preserving: "16 \<le> length key \<Longrightarrow> block_preserving (xor_block key)"
  by (simp add: block_preserving_def xor_block_def)

lemma xor_block_inverse: "16 \<le> length key \<Longrightarrow> block_inverse (xor_block key) (xor_block key)"
  by (simp add: block_inverse_def xor_block_def map2_xor_twice)

lemma app_mesh_key: "network_key app_mesh = app_key"
  by (simp add: app_mesh_def init_def)

lemma length_app_key: "length app_key = 16"
  by (simp add: app_key_def)

lemma xor_backend_simps:
  "aes_encrypt_block xor_backend = xor_block"
  "aes_decrypt_block xor_backend = xor_block"
  "utf8_decode_ignore xor_backend = ascii_decode_ignore"
  by (simp_all add: xor_backend_def)

subsection \<open>Bytes and 16-bit fields\<close>

lemma uint_byte_bounds: "0 \<le> uint (b :: byte)" "uint (b :: byte) \<le> 255"
  using uint_lt2p [of b] by simp_all

lemma uint16_bounds:
  "0 \<le> uint (a :: byte) * 256 + uint (b :: byte)"
  "uint (a :: byte) * 256 + uint (b :: byte) \<le> 65535"
  using uint_byte_bounds [of a] uint_byte_bounds [of b] by simp_all

lemma uint16_div: "(uint (a :: byte) * 256 + uint (b :: byte)) div 256 = uint a"
  using uint_byte_bounds [of b] by simp

lemma uint16_mod: "(uint (a :: byte) * 256 + uint (b :: byte)) mod 256 = uint b"
  using uint_byte_bounds [of b] by simp

lemma pack_H_unpack_H:
  "0 \<le> v \<Longrightarrow> v \<le> 65535 \<Longrightarrow>
   unpack_H [word_of_int (v div 256), word_of_int (v mod 256)] = Some v"
proof -
  assume a: "0 \<le> v" "v \<le> 65535"
  then have d: "0 \<le> v div 256" "v div 256 < 256" by simp_all
  have m: "0 \<le> v mod 256" "v mod 256 < 256" by simp_all
  have "uint (word_of_int (v div 256) :: byte) = v div 256"
    using d by (simp add: uint_word_of_int take_bit_int_eq_self)
  moreover have "uint (word_of_int (v mod 256) :: byte) = v mod 256"
    using m by (simp add: uint_word_of_int take_bit_int_eq_self)
  ultimately show ?thesis by simp
qed

lemma parse_header_SomeD:
  assumes "parse_header r = Some h"
  shows "8 \<le> length r"
    and "h = \<lparr>h_opcode = uint (r ! 0), h_source_id = uint (r ! 1) * 256 + uint (r ! 2),
           h_destination_id = uint (r ! 3) * 256 + uint (r ! 4), h_ttl = uint (r ! 5),
           h_seq_num = uint (r ! 6) * 256 + uint (r ! 7), h_encrypted_payload = drop 8 r\<rparr>"
proof -
  show l: "8 \<le> length r"
    using assms by (cases "length r < 8") (simp_all add: parse_header_short)
  show "h = \<lparr>h_opcode = uint (r ! 0), h_source_id = uint (r ! 1) * 256 + uint (r ! 2),
           h_destination_id = uint (r ! 3) * 256 + uint (r ! 4), h_ttl = uint (r ! 5),
           h_seq_num = uint (r ! 6) * 256 + uint (r ! 7), h_encrypted_payload = drop 8 r\<rparr>"
    using assms parse_header_long [OF l] by simp
qed

lemma header_ranges:
  assumes "parse_header r = Some h"
  shows "0 \<le> h_opcode h" "h_opcode h \<le> 255" "0 \<le> h_destination_id h"
    "h_destination_id h \<le> 65535" "0 \<le> h_ttl h" "h_ttl h \<le> 255"
  using parse_header_SomeD(2) [OF assms] uint_byte_bounds uint16_bounds by simp_all

lemma uint_word_of_int_byte: "0 \<le> v \<Longrightarrow> v \<le> 255 \<Longrightarrow> uint (word_of_int v :: byte) = v"
  by (simp add: uint_word_of_int take_bit_int_eq_self)

subsection \<open>The concrete nodes and inputs\<close>

lemma relay_node_fields:
  "node_id relay_node = 2" "network_key relay_node = app_key" "running relay_node"
  "message_callback relay_node" "sequence_number relay_node = 0"
  "scan_callback relay_node" "advertise_callback relay_node"
  "calls relay_node = [StartScan, StartThread]"
  by (simp_all add: relay_node_def advertise_presence_begin_def start_def emit_def init_def)

lemma app_mesh_fields:
  "node_id app_mesh = 1" "network_key app_mesh = app_key" "\<not> running app_mesh"
  "message_callback app_mesh" "sequence_number app_mesh = 0"
  "\<not> scan_callback app_mesh" "\<not> advertise_callback app_mesh"
  "calls app_mesh = []"
  by (simp_all add: app_mesh_def init_def)

lemma app_running_fields:
  "node_id app_running = 1" "network_key app_running = app_key" "running app_running"
  "message_callback app_running" "sequence_number app_running = 0"
  "scan_callback app_running" "advertise_callback app_running"
  "calls app_running = [StartScan, StartThread]"
  by (simp_all add: app_running_def app_mesh_def advertise_presence_begin_def start_def
      emit_def init_def)

lemma xor_hi_block: "xor_block app_key hi_block = [0x68, 0x69] @ replicate 14 0"
  by (simp add: xor_block_def app_key_def hi_block_def eval_nat_numeral)

lemma length_hi_block: "length hi_block = 16"
  by (simp add: hi_block_def)

lemma rstrip_zero_hi: "rstrip_zero ([0x68, 0x69] @ replicate 14 0) = [0x68, 0x69]"
  by (rule rstrip_zero_padding) simp

lemma decrypt_one_block:
  assumes "aes_key_ok (network_key s)" "length c = 16"
  shows "decrypt_payload B s c = Inr (rstrip_zero (aes_decrypt_block B (network_key s) c))"
  using assms by (simp add: decrypt_payload_def ecb_run_aligned ecb_update_single)

lemma format_message_1: "format_message 1 m = [78, 111, 100, 101, 32, 49, 58, 32] @ m"
  by (simp add: format_message_def str_of_int_def digits.simps)

lemma ecb_run_empty: "ecb_run f [] = Inr []"
  by (simp add: ecb_run_aligned ecb_update_def blocks16_short)

lemma rstrip_zero_empty: "rstrip_zero [] = []"
  by (simp add: rstrip_zero_def)

lemma aes_key_ok_app_key: "aes_key_ok app_key"
  by (simp add: aes_key_ok_def length_app_key)

lemma utf8_encode_e_acute:
  "utf8_encode (replicate n 0xE9) = Some (concat (replicate n [0xC3, 0xA9]))"
  by (induction n) (simp_all add: utf8_encode_cp_def)

lemma length_concat_pairs: "length (concat (replicate n [a, b])) = 2 * n"
  by (induction n) simp_all

lemma e_acute_facts:
  "length e_acute_text = 23"
  "utf8_encode e_acute_text = Some e_acute_utf8"
  "length e_acute_utf8 = 46"
  unfolding e_acute_text_def e_acute_utf8_def
  by (simp_all only: length_replicate utf8_encode_e_acute length_concat_pairs mult_2
      numeral_plus_numeral num.simps add_num_simps Num.add_num_simps)

lemma send_message_accepted:
  assumes short: "\<not> length text > MAX_PAYLOAD_SIZE" and enc: "utf8_encode text = Some payload"
    and key: "aes_key_ok (network_key s)" and adv: "advertise_callback s"
    and nid: "0 \<le> node_id s" "node_id s \<le> 65535"
    and dst: "0 \<le> destination_id" "destination_id \<le> 65535"
    and seq: "0 \<le> sequence_number s" "sequence_number s \<le> 65535"
  shows "send_message B s destination_id text =
     (Inr (), emit
        [StartAdvertising (Some (
           [0x01, word_of_int (node_id s div 256), word_of_int (node_id s mod 256),
            word_of_int (destination_id div 256), word_of_int (destination_id mod 256),
            0x07, word_of_int (sequence_number s div 256)]
           @ ecb_update (aes_encrypt_block B (network_key s))
               (payload @ replicate (16 - length payload mod 16) 0))),
         StopAdvertising]
        (s\<lparr>sequence_number := (sequence_number s + 1) mod 65535\<rparr>))"
proof -
  let ?padded = "payload @ replicate (16 - length payload mod 16) 0"
  let ?c = "ecb_update (aes_encrypt_block B (network_key s)) ?padded"
  have al: "length ?padded mod 16 = 0"
    using padded_aligned [of payload] by simp
  have e: "encrypt_payload B s payload = Inr ?c"
    using key al by (simp add: encrypt_payload_def ecb_run_aligned del: length_append)
  have b: "create_mesh_packet s destination_id 0x01 ?c TTL_DEFAULT =
      (Inr ([0x01, word_of_int (node_id s div 256), word_of_int (node_id s mod 256),
            word_of_int (destination_id div 256), word_of_int (destination_id mod 256),
            0x07, word_of_int (sequence_number s div 256)] @ ?c),
       s\<lparr>sequence_number := (sequence_number s + 1) mod 65535\<rparr>)"
    using nid dst seq create_mesh_packet_layout [of 1 s destination_id 7 ?c]
    by (simp add: TTL_DEFAULT_def)
  show ?thesis
    using short adv by (simp add: send_message_def enc e b advertise_packet_def)
qed

subsection \<open>The sequence counter\<close>

lemma create_mesh_packet_keeps:
  "node_id (snd (create_mesh_packet s d opc p t)) = node_id s"
  by (simp add: create_mesh_packet_def Let_def split: option.splits)

lemma create_mesh_packet_sequence:
  assumes "0 \<le> opc" "opc \<le> 255" "0 \<le> node_id s" "node_id s \<le> 65535"
    and "0 \<le> d" "d \<le> 65535" "0 \<le> t" "t \<le> 255"
    and "0 \<le> sequence_number s" "sequence_number s \<le> 65535"
  shows "sequence_number (snd (create_mesh_packet s d opc p t)) = (sequence_number s + 1) mod 65535"
  using assms by (simp add: create_mesh_packet_layout)

lemma build_packets_sequence:
  assumes "0 \<le> opc" "opc \<le> 255" "0 \<le> node_id s" "node_id s \<le> 65535"
    and "0 \<le> d" "d \<le> 65535" "0 \<le> t" "t \<le> 255"
    and "0 \<le> sequence_number s" "sequence_number s < 65535"
  shows "sequence_number (build_packets n s d opc p t) = (sequence_number s + int n) mod 65535"
  using assms
proof (induction n arbitrary: s)
  case 0
  then show ?case by simp
next
  case (Suc n)
  let ?s = "snd (create_mesh_packet s d opc p t)"
  have sq: "sequence_number ?s = (sequence_number s + 1) mod 65535"
    using Suc.prems by (intro create_mesh_packet_sequence) simp_all
  have "sequence_number (build_packets n ?s d opc p t) = (sequence_number ?s + int n) mod 65535"
    using Suc.prems sq by (intro Suc.IH) (simp_all add: create_mesh_packet_keeps)
  then show ?case
    by (simp add: sq mod_add_left_eq add.assoc)
qed

subsection \<open>Paths of \<open>send_message\<close>, \<open>stop\<close> and the last hop\<close>

lemma send_message_too_long:
  "length text > MAX_PAYLOAD_SIZE \<Longrightarrow>
   send_message B s destination_id text = (Inr (), emit [Print ''Message too long''] s)"
  by (simp add: send_message_def)

lemma stop_with_callbacks:
  "scan_callback s \<Longrightarrow> advertise_callback s \<Longrightarrow>
   stop s = (Inr (), emit [StopScan, StopAdvertising] (s\<lparr>running := False\<rparr>))"
  by (simp add: stop_def emit_def Let_def)

lemma terminal_hop_not_relayed:
  assumes hdr: "parse_header r = Some h" and ttl: "h_ttl h = 1"
    and dec: "decrypt_payload B s (h_encrypted_payload h) = Inr payload"
  shows "process_mesh_message B s r =
     (Inr (), if h_opcode h = 0x01 \<and> message_callback s
              then emit [MessageCallback (format_message (h_source_id h)
                           (utf8_decode_ignore B payload))] s
              else s)"
  using assms by (simp add: process_mesh_message_def Let_def)

section \<open>The claims\<close>

text \<open>
  C1 (codec round trip). The claim does not hold of the code. Node 1 with counter 0
  builds a frame for opcode 1, destination \<open>0xFFFF\<close>, ttl 7 and payload \<open>AA BB\<close>: the
  frame has nine bytes, the payload starts at byte 7 and not at byte 8, and reading the
  frame back gives sequence number 170 (\<open>0x00AA\<close>) and payload \<open>BB\<close> instead of 0 and
  \<open>AA BB\<close>.
\<close>

theorem codec_round_trip_fails:
  "create_mesh_packet app_mesh 0xFFFF 0x01 [0xAA, 0xBB] 7 =
     (Inr [0x01, 0x00, 0x01, 0xFF, 0xFF, 0x07, 0x00, 0xAA, 0xBB],
      app_mesh\<lparr>sequence_number := 1\<rparr>)
   \<and> parse_header [0x01, 0x00, 0x01, 0xFF, 0xFF, 0x07, 0x00, 0xAA, 0xBB] =
       Some \<lparr>h_opcode = 0x01, h_source_id = 1, h_destination_id = 0xFFFF, h_ttl = 7,
             h_seq_num = 170, h_encrypted_payload = [0xBB]\<rparr>"
proof -
  have "create_mesh_packet app_mesh 0xFFFF 0x01 [0xAA, 0xBB] 7 =
     (Inr [0x01, 0x00, 0x01, 0xFF, 0xFF, 0x07, 0x00, 0xAA, 0xBB],
      app_mesh\<lparr>sequence_number := 1\<rparr>)"
    by (simp add: create_mesh_packet_layout app_mesh_fields)
  moreover have "parse_header [0x01, 0x00, 0x01, 0xFF, 0xFF, 0x07, 0x00, 0xAA, 0xBB] =
       Some \<lparr>h_opcode = 0x01, h_source_id = 1, h_destination_id = 0xFFFF, h_ttl = 7,
             h_seq_num = 170, h_encrypted_payload = [0xBB]\<rparr>"
    by (simp add: parse_header_long)
  ultimately show ?thesis by simp
qed

text \<open>
  C2 (relay frame), as amended. For every received record that is relayed (its header is
  read, ttl above 1, the node Running with its advertise callback created, its own id and
  counter within 16 bits, the payload decrypted), the method returns normally, the
  outgoing packet follows the optional callback in the call log, and it carries the
  received opcode, the received destination_id, the received ttl minus 1 and, as its
  trailing bytes, the decrypted payload; its source_id field is the relaying node's own
  \<open>node_id\<close>.
\<close>

theorem relay_frame:
  assumes hdr: "parse_header r = Some h"
    and ttl: "1 < h_ttl h"
    and run: "running s" and adv: "advertise_callback s"
    and nid: "0 \<le> node_id s" "node_id s \<le> 65535"
    and seq: "0 \<le> sequence_number s" "sequence_number s \<le> 65535"
    and dec: "decrypt_payload B s (h_encrypted_payload h) = Inr payload"
  shows "\<exists>packet s'. process_mesh_message B s r = (Inr (), s')
      \<and> calls s' = calls s
          @ (if h_opcode h = 0x01 \<and> message_callback s
             then [MessageCallback (format_message (h_source_id h)
                     (utf8_decode_ignore B payload))]
             else [])
          @ [StartAdvertising (Some packet), StopAdvertising]
      \<and> 7 \<le> length packet
      \<and> uint (packet ! 0) = h_opcode h
      \<and> unpack_H (py_slice packet 1 3) = Some (node_id s)
      \<and> unpack_H (py_slice packet 3 5) = Some (h_destination_id h)
      \<and> uint (packet ! 5) = h_ttl h - 1
      \<and> suffix payload packet"
proof -
  define s1 where "s1 =
    (if h_opcode h = 0x01 \<and> message_callback s
     then emit [MessageCallback (format_message (h_source_id h)
                  (utf8_decode_ignore B payload))] s
     else s)"
  define packet where "packet =
    [word_of_int (h_opcode h) :: byte,
     word_of_int (node_id s div 256), word_of_int (node_id s mod 256),
     word_of_int (h_destination_id h div 256), word_of_int (h_destination_id h mod 256),
     word_of_int (h_ttl h - 1),
     word_of_int (sequence_number s div 256)] @ payload"
  define s2 where "s2 = s1\<lparr>sequence_number := (sequence_number s1 + 1) mod 65535\<rparr>"
  define s3 where "s3 = emit [StartAdvertising (Some packet), StopAdvertising] s2"
  note rng = header_ranges [OF hdr]
  have s1_fields: "node_id s1 = node_id s" "sequence_number s1 = sequence_number s"
    "running s1" "advertise_callback s1"
    using run adv by (simp_all add: s1_def emit_def)
  have build: "create_mesh_packet s1 (h_destination_id h) (h_opcode h) payload (h_ttl h - 1)
      = (Inr packet, s2)"
    unfolding packet_def s2_def s1_fields(2) [symmetric] s1_fields(1) [symmetric]
    using rng ttl nid seq s1_fields
    by (intro create_mesh_packet_layout) simp_all
  have send: "advertise_packet s2 packet = (Inr (), s3)"
    using s1_fields by (simp add: advertise_packet_def s2_def s3_def)
  have run: "process_mesh_message B s r = (Inr (), s3)"
    using hdr ttl dec s1_fields(3) build send
    by (cases "h_opcode h = 0x01"; cases "message_callback s")
       (simp_all add: process_mesh_message_def Let_def s1_def)
  have log: "calls s3 = calls s
          @ (if h_opcode h = 0x01 \<and> message_callback s
             then [MessageCallback (format_message (h_source_id h)
                     (utf8_decode_ignore B payload))]
             else [])
          @ [StartAdvertising (Some packet), StopAdvertising]"
    by (simp add: s3_def s2_def s1_def emit_def)
  have opc: "uint (packet ! 0) = h_opcode h"
    using rng by (simp add: packet_def uint_word_of_int take_bit_int_eq_self)
  have src: "unpack_H (py_slice packet 1 3) = Some (node_id s)"
    using pack_H_unpack_H [OF nid] by (simp add: packet_def py_slice_def)
  have dst: "unpack_H (py_slice packet 3 5) = Some (h_destination_id h)"
    using pack_H_unpack_H [OF rng(3,4)] by (simp add: packet_def py_slice_def eval_nat_numeral)
  have p5: "packet ! 5 = word_of_int (h_ttl h - 1)"
    by (simp add: packet_def eval_nat_numeral)
  have hop: "uint (packet ! 5) = h_ttl h - 1"
    unfolding p5 using rng ttl by (intro uint_word_of_int_byte) simp_all
  have suf: "suffix payload packet"
    by (simp add: packet_def suffix_def)
  have len: "7 \<le> length packet"
    by (simp add: packet_def)
  show ?thesis
    using run log len opc src dst hop suf by blast
qed

theorem relay_frame_witness:
  "parse_header hi_frame = Some hi_header \<and> 1 < h_ttl hi_header
   \<and> running relay_node \<and> advertise_callback relay_node
   \<and> 0 \<le> node_id relay_node \<and> node_id relay_node \<le> 65535
   \<and> 0 \<le> sequence_number relay_node \<and> sequence_number relay_node \<le> 65535
   \<and> decrypt_payload xor_backend relay_node (h_encrypted_payload hi_header) = Inr [0x68, 0x69]
   \<and> (\<exists>packet s'. process_mesh_message xor_backend relay_node hi_frame = (Inr (), s')
        \<and> calls s' = [StartScan, StartThread,
                       MessageCallback [78, 111, 100, 101, 32, 49, 58, 32, 104, 105],
                       StartAdvertising (Some packet), StopAdvertising]
        \<and> 7 \<le> length packet
        \<and> uint (packet ! 0) = 1
        \<and> unpack_H (py_slice packet 1 3) = Some 2
        \<and> unpack_H (py_slice packet 3 5) = Some 65535
        \<and> uint (packet ! 5) = 4
        \<and> suffix [0x68, 0x69] packet)"
proof -
  have h: "parse_header hi_frame = Some hi_header"
    by (simp add: hi_frame_def hi_header_def parse_header_long nth_append)
  have t: "1 < h_ttl hi_header"
    by (simp add: hi_header_def)
  have r: "running relay_node" and a: "advertise_callback relay_node"
    by (simp_all add: relay_node_fields)
  have n: "0 \<le> node_id relay_node" "node_id relay_node \<le> 65535"
    by (simp_all add: relay_node_fields)
  have q: "0 \<le> sequence_number relay_node" "sequence_number relay_node \<le> 65535"
    by (simp_all add: relay_node_fields)
  have d: "decrypt_payload xor_backend relay_node (h_encrypted_payload hi_header) =
      Inr [0x68, 0x69]"
    using decrypt_one_block [of relay_node hi_block xor_backend] rstrip_zero_hi
    by (simp add: hi_header_def relay_node_fields aes_key_ok_app_key length_hi_block
        xor_backend_simps xor_hi_block)
  have m: "format_message 1 (utf8_decode_ignore xor_backend [0x68, 0x69]) =
      [78, 111, 100, 101, 32, 49, 58, 32, 104, 105]"
    by (simp add: format_message_1 xor_backend_simps ascii_decode_ignore_def)
  have c: "\<exists>packet s'. process_mesh_message xor_backend relay_node hi_frame = (Inr (), s')
        \<and> calls s' = [StartScan, StartThread,
                       MessageCallback [78, 111, 100, 101, 32, 49, 58, 32, 104, 105],
                       StartAdvertising (Some packet), StopAdvertising]
        \<and> 7 \<le> length packet
        \<and> uint (packet ! 0) = 1
        \<and> unpack_H (py_slice packet 1 3) = Some 2
        \<and> unpack_H (py_slice packet 3 5) = Some 65535
        \<and> uint (packet ! 5) = 4
        \<and> suffix [0x68, 0x69] packet"
    using relay_frame [OF h t r a n q d] m
    by (simp add: hi_header_def relay_node_fields)
  show ?thesis
    using h t r a n q d c by blast
qed

text \<open>
  C2 as stated fails: node 2, Running, receives from node 1 the eight-byte frame with
  ttl 5 and no ciphertext (no block is decrypted, so the outcome is the same under every
  cipher). The packet it sends has source bytes \<open>00 02\<close>, where the received frame has
  \<open>00 01\<close>.
\<close>

theorem relay_rewrites_source_id:
  "process_mesh_message xor_backend relay_node
     [0x01, 0x00, 0x01, 0xFF, 0xFF, 0x05, 0x00, 0x00] =
     (Inr (), relay_node\<lparr>sequence_number := 1,
        calls := [StartScan, StartThread,
                  MessageCallback [78, 111, 100, 101, 32, 49, 58, 32],
                  StartAdvertising (Some [0x01, 0x00, 0x02, 0xFF, 0xFF, 0x04, 0x00]),
                  StopAdvertising]\<rparr>)
   \<and> py_slice [0x01, 0x00, 0x01, 0xFF, 0xFF, 0x05, 0x00, 0x00 :: byte] 1 3 = [0x00, 0x01]
   \<and> py_slice [0x01, 0x00, 0x02, 0xFF, 0xFF, 0x04, 0x00 :: byte] 1 3 = [0x00, 0x02]"
proof -
  have dec: "decrypt_payload xor_backend relay_node [] = Inr []"
    by (simp add: decrypt_payload_def relay_node_fields aes_key_ok_app_key ecb_run_empty
        rstrip_zero_empty)
  have msg: "utf8_decode_ignore xor_backend [] = []"
    by (simp add: xor_backend_simps ascii_decode_ignore_def)
  have build: "create_mesh_packet (relay_node\<lparr>calls := l\<rparr>) 65535 1 [] 4 =
      (Inr [0x01, 0x00, 0x02, 0xFF, 0xFF, 0x04, 0x00],
       relay_node\<lparr>calls := l, sequence_number := 1\<rparr>)" for l
    by (simp add: create_mesh_packet_layout relay_node_fields)
  have "process_mesh_message xor_backend relay_node
     [0x01, 0x00, 0x01, 0xFF, 0xFF, 0x05, 0x00, 0x00] =
     (Inr (), relay_node\<lparr>sequence_number := 1,
        calls := [StartScan, StartThread,
                  MessageCallback [78, 111, 100, 101, 32, 49, 58, 32],
                  StartAdvertising (Some [0x01, 0x00, 0x02, 0xFF, 0xFF, 0x04, 0x00]),
                  StopAdvertising]\<rparr>)"
    by (simp add: process_mesh_message_def parse_header_long dec msg format_message_1
        relay_node_fields build advertise_packet_def emit_def)
  then show ?thesis
    by (simp add: py_slice_def eval_nat_numeral)
qed

text \<open>
  C3 (sequence wraparound). The claim does not hold of the code: the counter is advanced
  modulo 65535. From counter 65534 one more packet gives 0, not 65535; from a new
  node, 65535 packets bring the counter back to 0 and 65536 packets leave it at 1.
\<close>

theorem sequence_wraps_at_65535:
  "sequence_number (snd (create_mesh_packet (app_mesh\<lparr>sequence_number := 65534\<rparr>)
      0xFFFF 0x01 [] TTL_DEFAULT)) = 0
   \<and> sequence_number (build_packets 65535 app_mesh 0xFFFF 0x01 [] TTL_DEFAULT) = 0
   \<and> sequence_number (build_packets 65536 app_mesh 0xFFFF 0x01 [] TTL_DEFAULT) = 1"
proof -
  have one: "sequence_number (snd (create_mesh_packet (app_mesh\<lparr>sequence_number := 65534\<rparr>)
      0xFFFF 0x01 [] TTL_DEFAULT)) = 0"
    by (simp add: create_mesh_packet_sequence app_mesh_fields TTL_DEFAULT_def)
  have many: "sequence_number (build_packets n app_mesh 0xFFFF 0x01 [] TTL_DEFAULT) =
      int n mod 65535" for n
    using build_packets_sequence [of 1 app_mesh 65535 7 n "[]"]
    by (simp add: app_mesh_fields TTL_DEFAULT_def)
  show ?thesis
    using one many [of 65535] many [of 65536] by simp
qed

text \<open>
  C4 (receive-path robustness). The claim does not hold of the code: a nine-byte record
  with ttl 1, whose ciphertext is the single byte \<open>AA\<close>, makes \<open>_process_mesh_message\<close>
  raise \<open>ValueError\<close> to its caller, in every node and under every backend.
\<close>

theorem unaligned_ciphertext_raises:
  "process_mesh_message B s [0x01, 0x00, 0x01, 0xFF, 0xFF, 0x01, 0x00, 0x00, 0xAA] =
     (Inl ValueError, s)"
  by (simp add: process_mesh_message_def parse_header_long decrypt_payload_def
      ecb_run_unaligned)

text \<open>
  C5 (TTL exhaustion). A received record whose ttl byte (index 5) is 0 is dropped before
  anything else happens: the method returns normally and the node is unchanged, so no
  callback is invoked and nothing is transmitted; no decryption is attempted either,
  since the statement holds for every backend and every key, also one that AES rejects.
\<close>

theorem ttl_exhausted_dropped:
  assumes "5 < length scan_record" and "scan_record ! 5 = 0"
  shows "process_mesh_message B s scan_record = (Inr (), s)"
proof (cases "length scan_record < 8")
  case True
  then show ?thesis
    by (simp add: process_mesh_message_def parse_header_short)
next
  case False
  then have "8 \<le> length scan_record" by simp
  then show ?thesis
    using assms(2) by (simp add: process_mesh_message_def parse_header_long)
qed

theorem ttl_exhausted_dropped_witness:
  "5 < length [0x01, 0x00, 0x01, 0xFF, 0xFF, 0x00, 0x00, 0x00 :: byte]
   \<and> [0x01, 0x00, 0x01, 0xFF, 0xFF, 0x00, 0x00, 0x00 :: byte] ! 5 = 0
   \<and> process_mesh_message xor_backend relay_node
        [0x01, 0x00, 0x01, 0xFF, 0xFF, 0x00, 0x00, 0x00] = (Inr (), relay_node)"
proof -
  have a: "5 < length [0x01, 0x00, 0x01, 0xFF, 0xFF, 0x00, 0x00, 0x00 :: byte]" by simp
  have b: "[0x01, 0x00, 0x01, 0xFF, 0xFF, 0x00, 0x00, 0x00 :: byte] ! 5 = 0" by simp
  show ?thesis
    using a b ttl_exhausted_dropped [OF a b, of xor_backend relay_node] by simp
qed

text \<open>
  C6 (relay decision and TTL decrement). The claim does not hold of the code in its
  sequence number. Node 2, Running with counter 0, receives a frame with ttl 5 whose
  ciphertext block decrypts to \<open>b'hi'\<close> and zero padding. It delivers the message and
  relays a packet with ttl 4, but bytes 6 and 7 of that packet are \<open>00 68\<close>: read back,
  its sequence number is 104, not the node's counter 0, and its payload is \<open>69\<close>.
\<close>

theorem relay_sequence_field_overwritten:
  assumes len: "length c = 16"
    and plain: "aes_decrypt_block B app_key c = [0x68, 0x69] @ replicate 14 0"
  shows "process_mesh_message B relay_node
           ([0x01, 0x00, 0x01, 0xFF, 0xFF, 0x05, 0x00, 0x00] @ c) =
         (Inr (), relay_node\<lparr>sequence_number := 1,
            calls := [StartScan, StartThread,
                      MessageCallback (format_message 1 (utf8_decode_ignore B [0x68, 0x69])),
                      StartAdvertising
                        (Some [0x01, 0x00, 0x02, 0xFF, 0xFF, 0x04, 0x00, 0x68, 0x69]),
                      StopAdvertising]\<rparr>)
       \<and> sequence_number relay_node = 0
       \<and> parse_header [0x01, 0x00, 0x02, 0xFF, 0xFF, 0x04, 0x00, 0x68, 0x69] =
           Some \<lparr>h_opcode = 0x01, h_source_id = 2, h_destination_id = 0xFFFF, h_ttl = 4,
                 h_seq_num = 104, h_encrypted_payload = [0x69]\<rparr>"
proof -
  have dec: "decrypt_payload B relay_node c = Inr [0x68, 0x69]"
    using decrypt_one_block [of relay_node c B] len plain rstrip_zero_hi
    by (simp add: relay_node_fields aes_key_ok_app_key)
  have build: "create_mesh_packet (relay_node\<lparr>calls := l\<rparr>) 65535 1 [0x68, 0x69] 4 =
      (Inr [0x01, 0x00, 0x02, 0xFF, 0xFF, 0x04, 0x00, 0x68, 0x69],
       relay_node\<lparr>calls := l, sequence_number := 1\<rparr>)" for l
    by (simp add: create_mesh_packet_layout relay_node_fields)
  have hdr: "parse_header ([0x01, 0x00, 0x01, 0xFF, 0xFF, 0x05, 0x00, 0x00] @ c) =
      Some \<lparr>h_opcode = 0x01, h_source_id = 1, h_destination_id = 0xFFFF, h_ttl = 5,
            h_seq_num = 0, h_encrypted_payload = c\<rparr>"
    by (simp add: parse_header_long nth_append)
  have "process_mesh_message B relay_node
           ([0x01, 0x00, 0x01, 0xFF, 0xFF, 0x05, 0x00, 0x00] @ c) =
         (Inr (), relay_node\<lparr>sequence_number := 1,
            calls := [StartScan, StartThread,
                      MessageCallback (format_message 1 (utf8_decode_ignore B [0x68, 0x69])),
                      StartAdvertising
                        (Some [0x01, 0x00, 0x02, 0xFF, 0xFF, 0x04, 0x00, 0x68, 0x69]),
                      StopAdvertising]\<rparr>)"
    unfolding process_mesh_message_def hdr
    by (simp add: dec relay_node_fields build advertise_packet_def emit_def)
  moreover have "parse_header [0x01, 0x00, 0x02, 0xFF, 0xFF, 0x04, 0x00, 0x68, 0x69] =
           Some \<lparr>h_opcode = 0x01, h_source_id = 2, h_destination_id = 0xFFFF, h_ttl = 4,
                 h_seq_num = 104, h_encrypted_payload = [0x69]\<rparr>"
    by (simp add: parse_header_long)
  ultimately show ?thesis
    by (simp add: relay_node_fields)
qed

theorem relay_sequence_field_overwritten_witness:
  "length hi_block = 16
   \<and> aes_decrypt_block xor_backend app_key hi_block = [0x68, 0x69] @ replicate 14 0
   \<and> process_mesh_message xor_backend relay_node
        ([0x01, 0x00, 0x01, 0xFF, 0xFF, 0x05, 0x00, 0x00] @ hi_block) =
      (Inr (), relay_node\<lparr>sequence_number := 1,
         calls := [StartScan, StartThread,
                   MessageCallback [78, 111, 100, 101, 32, 49, 58, 32, 104, 105],
                   StartAdvertising
                     (Some [0x01, 0x00, 0x02, 0xFF, 0xFF, 0x04, 0x00, 0x68, 0x69]),
                   StopAdvertising]\<rparr>)"
proof -
  have a: "length hi_block = 16" by (rule length_hi_block)
  have b: "aes_decrypt_block xor_backend app_key hi_block = [0x68, 0x69] @ replicate 14 0"
    by (simp add: xor_backend_simps xor_hi_block)
  have m: "format_message 1 (utf8_decode_ignore xor_backend [0x68, 0x69]) =
      [78, 111, 100, 101, 32, 49, 58, 32, 104, 105]"
    by (simp add: format_message_1 xor_backend_simps ascii_decode_ignore_def)
  show ?thesis
    using a b relay_sequence_field_overwritten [OF a b] by (simp add: m)
qed

text \<open>
  C7 (origination size guard). The claim does not hold of the code: the guard compares
  the number of code points with 23. A text of 23 code points U+00E9 has 46 bytes in
  UTF-8, more than \<open>MAX_PAYLOAD_SIZE\<close>, and is not rejected: a started node encrypts it
  to three blocks and transmits the packet.
\<close>

theorem size_guard_counts_code_points:
  "length e_acute_text = 23 \<and> \<not> length e_acute_text > MAX_PAYLOAD_SIZE
   \<and> utf8_encode e_acute_text = Some e_acute_utf8
   \<and> length e_acute_utf8 = 46 \<and> MAX_PAYLOAD_SIZE < length e_acute_utf8
   \<and> send_message B app_running 0xFFFF e_acute_text =
       (Inr (), app_running\<lparr>sequence_number := 1,
          calls := [StartScan, StartThread,
                    StartAdvertising
                      (Some ([0x01, 0x00, 0x01, 0xFF, 0xFF, 0x07, 0x00]
                         @ ecb_update (aes_encrypt_block B app_key)
                             (e_acute_utf8 @ [0x00, 0x00]))),
                    StopAdvertising]\<rparr>)"
proof -
  have short: "\<not> length e_acute_text > MAX_PAYLOAD_SIZE"
    by (simp add: e_acute_facts MAX_PAYLOAD_SIZE_def)
  have pad: "replicate (16 - length e_acute_utf8 mod 16) (0 :: byte) = [0x00, 0x00]"
    by (simp add: e_acute_facts numeral_2_eq_2)
  have "send_message B app_running 0xFFFF e_acute_text =
       (Inr (), app_running\<lparr>sequence_number := 1,
          calls := [StartScan, StartThread,
                    StartAdvertising
                      (Some ([0x01, 0x00, 0x01, 0xFF, 0xFF, 0x07, 0x00]
                         @ ecb_update (aes_encrypt_block B app_key)
                             (e_acute_utf8 @ [0x00, 0x00]))),
                    StopAdvertising]\<rparr>)"
    using send_message_accepted [OF short e_acute_facts(2), of app_running 65535 B]
    by (simp add: app_running_fields aes_key_ok_app_key pad emit_def)
  then show ?thesis
    using short by (simp add: e_acute_facts MAX_PAYLOAD_SIZE_def)
qed

text \<open>
  C8 (cipher round trip). Under a key that AES accepts and a block cipher whose
  decryption undoes its encryption, every plaintext of 1 to 15 bytes that does not end in
  a zero byte is encrypted to the single block of the plaintext padded with zero bytes to
  16 bytes, and decrypting that block gives back the plaintext exactly.
\<close>

theorem cipher_round_trip:
  assumes key: "aes_key_ok (network_key s)"
    and len: "block_preserving (aes_encrypt_block B (network_key s))"
    and inv: "block_inverse (aes_decrypt_block B (network_key s))
                (aes_encrypt_block B (network_key s))"
    and p: "1 \<le> length p" "length p \<le> 15" "last p \<noteq> 0"
  shows "encrypt_payload B s p =
           Inr (aes_encrypt_block B (network_key s) (p @ replicate (16 - length p) 0))
       \<and> decrypt_payload B s (aes_encrypt_block B (network_key s) (p @ replicate (16 - length p) 0)) = Inr p"
proof -
  let ?E = "aes_encrypt_block B (network_key s)"
  let ?D = "aes_decrypt_block B (network_key s)"
  let ?padded = "p @ replicate (16 - length p) 0"
  have m: "length p mod 16 = length p" using p by simp
  have lp: "length ?padded = 16" using p by simp
  have enc: "encrypt_payload B s p = Inr (?E ?padded)"
    using key lp by (simp add: encrypt_payload_def m ecb_run_aligned ecb_update_single del: length_append)
  have lc: "length (?E ?padded) = 16"
    using len lp unfolding block_preserving_def by blast
  have undo: "?D (?E ?padded) = ?padded"
    using inv lp unfolding block_inverse_def by blast
  have "decrypt_payload B s (?E ?padded) = Inr (rstrip_zero ?padded)"
    using key lc by (simp add: decrypt_payload_def ecb_run_aligned ecb_update_single undo)
  also have "rstrip_zero ?padded = p"
    using p by (simp add: rstrip_zero_padding)
  finally show ?thesis using enc by simp
qed

theorem cipher_round_trip_witness:
  "aes_key_ok (network_key app_mesh)
   \<and> block_preserving (aes_encrypt_block xor_backend (network_key app_mesh))
   \<and> block_inverse (aes_decrypt_block xor_backend (network_key app_mesh))
        (aes_encrypt_block xor_backend (network_key app_mesh))
   \<and> 1 \<le> length [0x68, 0x69 :: byte] \<and> length [0x68, 0x69 :: byte] \<le> 15
   \<and> last [0x68, 0x69 :: byte] \<noteq> 0
   \<and> encrypt_payload xor_backend app_mesh [0x68, 0x69] =
        Inr [0x58, 0x58, 0x32, 0x33, 0x34, 0x35, 0x36, 0x37, 0x38, 0x39,
             0x61, 0x62, 0x63, 0x64, 0x65, 0x66]
   \<and> decrypt_payload xor_backend app_mesh
        [0x58, 0x58, 0x32, 0x33, 0x34, 0x35, 0x36, 0x37, 0x38, 0x39,
         0x61, 0x62, 0x63, 0x64, 0x65, 0x66] = Inr [0x68, 0x69]"
proof -
  have k: "aes_key_ok (network_key app_mesh)"
    by (simp add: aes_key_ok_def app_mesh_key length_app_key)
  have b: "block_preserving (aes_encrypt_block xor_backend (network_key app_mesh))"
    by (simp add: xor_backend_simps app_mesh_key xor_block_preserving length_app_key)
  have i: "block_inverse (aes_decrypt_block xor_backend (network_key app_mesh))
        (aes_encrypt_block xor_backend (network_key app_mesh))"
    by (simp add: xor_backend_simps app_mesh_key xor_block_inverse length_app_key)
  have x: "xor_block app_key ([0x68, 0x69] @ replicate 14 0) =
        [0x58, 0x58, 0x32, 0x33, 0x34, 0x35, 0x36, 0x37, 0x38, 0x39,
             0x61, 0x62, 0x63, 0x64, 0x65, 0x66]"
    by (simp add: xor_block_def app_key_def eval_nat_numeral)
  have p: "1 \<le> length [0x68, 0x69 :: byte]" "length [0x68, 0x69 :: byte] \<le> 15"
     "last [0x68, 0x69 :: byte] \<noteq> 0"
    by simp_all
  show ?thesis
    using k b i p cipher_round_trip [OF k b i p] x
    by (simp add: xor_backend_simps app_mesh_key)
qed

text \<open>
  C9 (\<open>stop\<close> while Stopped). The claim does not hold of the code: on a node that was
  never started, and on a node whose \<open>start\<close> found the adapter disabled, \<open>stop\<close>
  raises \<open>AttributeError\<close>, because \<open>scan_callback\<close> was never created. The node stays
  Stopped.
\<close>

theorem stop_before_start_raises:
  "stop (init nid key) = (Inl AttributeError, init nid key)
   \<and> stop (start False (init nid key)) = (Inl AttributeError, start False (init nid key))"
  by (simp add: stop_def start_def init_def emit_def)

text \<open>
  C10 (padding length). Under a key that AES accepts, for every plaintext \<open>p\<close> the
  ciphertext has \<open>length p + (16 - length p mod 16)\<close> bytes, is strictly longer than
  \<open>p\<close>, is not empty and is a multiple of 16 long; when \<open>length p\<close> is a multiple of 16
  (the empty plaintext included) the encrypted buffer is \<open>p\<close> followed by a whole block
  of 16 zero bytes.
\<close>

theorem encrypt_padding_length:
  assumes key: "aes_key_ok (network_key s)"
    and len: "block_preserving (aes_encrypt_block B (network_key s))"
  shows "\<exists>c. encrypt_payload B s p = Inr c
           \<and> length c = length p + (16 - length p mod 16)
           \<and> length p < length c \<and> 0 < length c \<and> length c mod 16 = 0
           \<and> (length p mod 16 = 0 \<longrightarrow>
                c = ecb_update (aes_encrypt_block B (network_key s)) (p @ replicate 16 0))"
proof -
  let ?f = "aes_encrypt_block B (network_key s)"
  let ?padded = "p @ replicate (16 - length p mod 16) 0"
  have al: "length ?padded mod 16 = 0"
    using padded_aligned [of p] by simp
  have run: "encrypt_payload B s p = Inr (ecb_update ?f ?padded)"
    using key al by (simp add: encrypt_payload_def ecb_run_aligned del: length_append)
  have "16 * (length ?padded div 16) = length ?padded"
    using al by (metis mult_div_mod_eq add.right_neutral)
  then have l: "length (ecb_update ?f ?padded) = length p + (16 - length p mod 16)"
    using length_ecb_update [OF len, of ?padded] by simp
  have m: "(length p + (16 - length p mod 16)) mod 16 = 0"
    by (rule padded_aligned)
  have lt: "length p mod 16 < 16" by simp
  show ?thesis
    using run l m lt by auto
qed

theorem encrypt_padding_length_witness:
  "aes_key_ok (network_key app_mesh)
   \<and> block_preserving (aes_encrypt_block xor_backend (network_key app_mesh))
   \<and> (\<exists>c. encrypt_payload xor_backend app_mesh [] = Inr c \<and> length c = 16
          \<and> c = ecb_update (xor_block app_key) (replicate 16 0))"
proof -
  have k: "aes_key_ok (network_key app_mesh)"
    by (simp add: aes_key_ok_def app_mesh_key length_app_key)
  have b: "block_preserving (aes_encrypt_block xor_backend (network_key app_mesh))"
    by (simp add: xor_backend_simps app_mesh_key xor_block_preserving length_app_key)
  show ?thesis
    using k b encrypt_padding_length [OF k b, of "[]"]
    by (simp add: xor_backend_simps app_mesh_key)
qed

end
